theory Spec2Isabelle
  imports Complex_Main "HOL-Library.Word"
begin

section \<open>Values of the two array libraries\<close>

text \<open>
  The transformations of \<^verbatim>\<open>pybio/torch/transformations/generic.py\<close> work on
  \<^verbatim>\<open>numpy.ndarray\<close> and \<^verbatim>\<open>torch.Tensor\<close> values. Both are a shape
  and a row-major buffer of elements of one element type. Integer elements are machine
  words; floating elements are rationals extended by the two infinities and NaN, so
  rounding is left out of the model while the mean of no elements (0/0) is still NaN.
  Complex, quantised and object element types are not modelled. The byte order belongs
  to an element type of \<^verbatim>\<open>numpy\<close>: an array in the other byte order than the
  machine's has a type of its own, equal to none of the native ones, and its elements
  are kept by value.
\<close>

datatype dtype =
  dt_bool | dt_uint8 | dt_uint16 | dt_uint32 | dt_uint64
  | dt_int8 | dt_int16 | dt_int32 | dt_int64
  | dt_float16 | dt_float32 | dt_float64
  | dt_byteswapped

datatype flt = Fin rat | PosInf | NegInf | NaN

datatype scalar = SBool bool | SInt int | SFlt flt

datatype buffer =
  Bools "bool list"
  | U8s "8 word list" | U16s "16 word list" | U32s "32 word list" | U64s "64 word list"
  | I8s "8 word list" | I16s "16 word list" | I32s "32 word list" | I64s "64 word list"
  | F16s "flt list" | F32s "flt list" | F64s "flt list"
  | Byteswapped "scalar list"

fun dtype_of :: "buffer \<Rightarrow> dtype" where
  "dtype_of (Bools _) = dt_bool"
| "dtype_of (U8s _) = dt_uint8"
| "dtype_of (U16s _) = dt_uint16"
| "dtype_of (U32s _) = dt_uint32"
| "dtype_of (U64s _) = dt_uint64"
| "dtype_of (I8s _) = dt_int8"
| "dtype_of (I16s _) = dt_int16"
| "dtype_of (I32s _) = dt_int32"
| "dtype_of (I64s _) = dt_int64"
| "dtype_of (F16s _) = dt_float16"
| "dtype_of (F32s _) = dt_float32"
| "dtype_of (F64s _) = dt_float64"
| "dtype_of (Byteswapped _) = dt_byteswapped"

fun is_floating :: "dtype \<Rightarrow> bool" where
  "is_floating dt_float16 = True"
| "is_floating dt_float32 = True"
| "is_floating dt_float64 = True"
| "is_floating _ = False"

text \<open>The numeric value of an element: unsigned words by \<open>uint\<close>, signed ones by \<open>sint\<close>.\<close>

fun buf_scalars :: "buffer \<Rightarrow> scalar list" where
  "buf_scalars (Bools bs) = map SBool bs"
| "buf_scalars (U8s ws) = map (\<lambda>w. SInt (uint w)) ws"
| "buf_scalars (U16s ws) = map (\<lambda>w. SInt (uint w)) ws"
| "buf_scalars (U32s ws) = map (\<lambda>w. SInt (uint w)) ws"
| "buf_scalars (U64s ws) = map (\<lambda>w. SInt (uint w)) ws"
| "buf_scalars (I8s ws) = map (\<lambda>w. SInt (sint w)) ws"
| "buf_scalars (I16s ws) = map (\<lambda>w. SInt (sint w)) ws"
| "buf_scalars (I32s ws) = map (\<lambda>w. SInt (sint w)) ws"
| "buf_scalars (I64s ws) = map (\<lambda>w. SInt (sint w)) ws"
| "buf_scalars (F16s xs) = map SFlt xs"
| "buf_scalars (F32s xs) = map SFlt xs"
| "buf_scalars (F64s xs) = map SFlt xs"
| "buf_scalars (Byteswapped xs) = xs"

fun to_flt :: "scalar \<Rightarrow> flt" where
  "to_flt (SBool b) = Fin (if b then 1 else 0)"
| "to_flt (SInt i) = Fin (of_int i)"
| "to_flt (SFlt x) = x"

definition buf_values :: "buffer \<Rightarrow> flt list" where
  "buf_values b = map to_flt (buf_scalars b)"

definition buf_len :: "buffer \<Rightarrow> nat" where
  "buf_len b = length (buf_scalars b)"

text \<open>Reading the elements at the given flat positions, whatever the element type.\<close>

definition gather :: "nat list \<Rightarrow> 'a list \<Rightarrow> 'a list" where
  "gather idx xs = map (\<lambda>i. xs ! i) idx"

fun buf_gather :: "nat list \<Rightarrow> buffer \<Rightarrow> buffer" where
  "buf_gather idx (Bools xs) = Bools (gather idx xs)"
| "buf_gather idx (U8s xs) = U8s (gather idx xs)"
| "buf_gather idx (U16s xs) = U16s (gather idx xs)"
| "buf_gather idx (U32s xs) = U32s (gather idx xs)"
| "buf_gather idx (U64s xs) = U64s (gather idx xs)"
| "buf_gather idx (I8s xs) = I8s (gather idx xs)"
| "buf_gather idx (I16s xs) = I16s (gather idx xs)"
| "buf_gather idx (I32s xs) = I32s (gather idx xs)"
| "buf_gather idx (I64s xs) = I64s (gather idx xs)"
| "buf_gather idx (F16s xs) = F16s (gather idx xs)"
| "buf_gather idx (F32s xs) = F32s (gather idx xs)"
| "buf_gather idx (F64s xs) = F64s (gather idx xs)"
| "buf_gather idx (Byteswapped xs) = Byteswapped (gather idx xs)"

datatype device = CPU | CUDA nat

text \<open>
  An array is a view of memory: besides its shape and elements it has strides, of which
  \<^verbatim>\<open>torch.from_numpy\<close> asks whether one is negative (a reversed view such as
  \<^verbatim>\<open>a[::-1]\<close>) and whether one is no multiple of the element size.
\<close>

record ndarray =
  nd_shape :: "nat list"
  nd_data :: buffer
  nd_stride_negative :: bool
  nd_stride_misaligned :: bool

record tensor =
  t_shape :: "nat list"
  t_data :: buffer
  t_device :: device
  t_requires_grad :: bool

text \<open>\<^verbatim>\<open>Union[numpy.ndarray, torch.Tensor]\<close>, decided by \<^verbatim>\<open>isinstance\<close> in the source.\<close>

datatype tensor_like = Ndarray ndarray | Tensor tensor

text \<open>A buffer holds exactly the elements its shape counts.\<close>

definition wf_tensor :: "tensor \<Rightarrow> bool" where
  "wf_tensor t = (buf_len (t_data t) = prod_list (t_shape t))"

text \<open>
  The exceptions the code raises itself (\<^verbatim>\<open>TypeError\<close>, \<^verbatim>\<open>ValueError\<close>, with the
  source's messages) and those that reach the caller from Python and the libraries.
\<close>

datatype error =
  AttributeError string | TypeError string | ValueError string
  | IndexError string | RuntimeError string

section \<open>Library operations used by AverageChannels\<close>

text \<open>\<^verbatim>\<open>tensor.shape[i]\<close> for a literal index \<open>i \<ge> 0\<close>: a tuple read that raises out of range.\<close>

definition shape_getitem :: "nat list \<Rightarrow> nat \<Rightarrow> error + nat" where
  "shape_getitem sh i =
     (if i < length sh then Inr (sh ! i) else Inl (IndexError ''tuple index out of range''))"

text \<open>
  A slice bound on an axis of length \<open>n\<close>: a negative bound counts from the end, and every
  bound is clamped into \<open>0..n\<close>. The slice \<^verbatim>\<open>a:b\<close> selects the positions from the
  first bound up to the second, none when the second is not above the first.
\<close>

definition slice_bound :: "nat \<Rightarrow> int \<Rightarrow> nat" where
  "slice_bound n i = (if i < 0 then nat (max 0 (int n + i)) else min n (nat i))"

definition slice_range :: "nat \<Rightarrow> int \<Rightarrow> int \<Rightarrow> nat list" where
  "slice_range n a b = [slice_bound n a ..< slice_bound n b]"

text \<open>
  Flat positions, in a buffer of shape \<open>[N, C, ...]\<close> with \<open>P\<close> elements per channel, of
  the chosen channels of batch entry \<open>n\<close>.
\<close>

definition axis1_positions :: "nat \<Rightarrow> nat \<Rightarrow> nat list \<Rightarrow> nat \<Rightarrow> nat list" where
  "axis1_positions C P chans n =
     concat (map (\<lambda>c. map (\<lambda>p. (n * C + c) * P + p) [0..<P]) chans)"

text \<open>\<^verbatim>\<open>tensor[numpy.s_[:, a:b]]\<close>.\<close>

definition getitem_axis1 :: "tensor \<Rightarrow> int \<Rightarrow> int \<Rightarrow> error + tensor" where
  "getitem_axis1 t a b =
     (case t_shape t of
        N # C # sp \<Rightarrow>
          (let chans = slice_range C a b; P = prod_list sp
           in Inr (t\<lparr>t_shape := N # length chans # sp,
                     t_data := buf_gather (concat (map (axis1_positions C P chans) [0..<N]))
                                 (t_data t)\<rparr>))
      | _ \<Rightarrow> Inl (IndexError ''too many indices for tensor''))"

text \<open>Floating addition and division by a count, exact on finite values.\<close>

fun fadd :: "flt \<Rightarrow> flt \<Rightarrow> flt" where
  "fadd (Fin a) (Fin b) = Fin (a + b)"
| "fadd NaN _ = NaN"
| "fadd _ NaN = NaN"
| "fadd PosInf NegInf = NaN"
| "fadd NegInf PosInf = NaN"
| "fadd PosInf _ = PosInf"
| "fadd _ PosInf = PosInf"
| "fadd NegInf _ = NegInf"
| "fadd _ NegInf = NegInf"

fun fdiv_count :: "flt \<Rightarrow> nat \<Rightarrow> flt" where
  "fdiv_count (Fin a) k =
     (if k = 0 then (if a = 0 then NaN else if 0 < a then PosInf else NegInf)
      else Fin (a / of_nat k))"
| "fdiv_count x k = x"

definition fmean :: "flt list \<Rightarrow> flt" where
  "fmean xs = fdiv_count (foldl fadd (Fin 0) xs) (length xs)"

text \<open>
  \<^verbatim>\<open>torch.mean(x, 1, keepdim=True)\<close>: the mean over axis 1, which stays as an axis of
  length 1. The library computes means of floating tensors only: for a tensor of
  integers or booleans \<^verbatim>\<open>torch.mean\<close> raises a RuntimeError.
\<close>

definition mean_data :: "nat \<Rightarrow> nat \<Rightarrow> nat \<Rightarrow> flt list \<Rightarrow> flt list" where
  "mean_data N K P xs =
     concat (map (\<lambda>n. map (\<lambda>p. fmean (map (\<lambda>c. xs ! ((n * K + c) * P + p)) [0..<K])) [0..<P])
               [0..<N])"

definition mean_axis1_keepdim :: "tensor \<Rightarrow> error + tensor" where
  "mean_axis1_keepdim t =
     (case t_shape t of
        N # K # sp \<Rightarrow>
          (case t_data t of
             F16s xs \<Rightarrow>
               Inr (t\<lparr>t_shape := N # 1 # sp, t_data := F16s (mean_data N K (prod_list sp) xs)\<rparr>)
           | F32s xs \<Rightarrow>
               Inr (t\<lparr>t_shape := N # 1 # sp, t_data := F32s (mean_data N K (prod_list sp) xs)\<rparr>)
           | F64s xs \<Rightarrow>
               Inr (t\<lparr>t_shape := N # 1 # sp, t_data := F64s (mean_data N K (prod_list sp) xs)\<rparr>)
           | _ \<Rightarrow> Inl (RuntimeError ''Can only calculate the mean of floating types''))
      | _ \<Rightarrow> Inl (IndexError ''Dimension out of range''))"

section \<open>AverageChannels\<close>

record AverageChannels =
  start_channel :: "int option"
  stop_channel :: "int option"

text \<open>The constructor only stores its two arguments.\<close>

definition AverageChannels_init :: "int option \<Rightarrow> int option \<Rightarrow> AverageChannels" where
  "AverageChannels_init start stop = \<lparr>start_channel = start, stop_channel = stop\<rparr>"

text \<open>The two bounds with their defaults, as \<^verbatim>\<open>apply_to_chosen\<close> computes them.\<close>

definition effective_start :: "AverageChannels \<Rightarrow> int" where
  "effective_start self = (case start_channel self of None \<Rightarrow> 0 | Some s \<Rightarrow> s)"

definition effective_stop :: "AverageChannels \<Rightarrow> nat \<Rightarrow> int" where
  "effective_stop self n_channels =
     (case stop_channel self of None \<Rightarrow> int n_channels | Some s \<Rightarrow> s)"

definition AverageChannels_apply_to_chosen :: "AverageChannels \<Rightarrow> tensor \<Rightarrow> error + tensor" where
  "AverageChannels_apply_to_chosen self t =
     (case shape_getitem (t_shape t) 1 of
        Inl e \<Rightarrow> Inl e
      | Inr n_channels \<Rightarrow>
          (let start = effective_start self;
               stop = effective_stop self n_channels
           in if start \<ge> stop \<or> stop > int n_channels
              then Inl (ValueError
                     ''Invalid channel range in pybio.torch.transformation.AverageChannels'')
              else (case getitem_axis1 t start stop of
                      Inl e \<Rightarrow> Inl e
                    | Inr sliced \<Rightarrow> mean_axis1_keepdim sliced)))"

section \<open>Element type conversion\<close>

text \<open>
  \<^verbatim>\<open>ndarray.astype\<close> and \<^verbatim>\<open>Tensor.type\<close> convert element by element as a C cast
  does. An integer is reduced modulo the width of the target. A floating value is
  truncated towards zero by the processor's conversion to a signed integer of 32 bits,
  or of 64 bits for a 64-bit or unsigned target, and a narrower target keeps the low
  bits of that. C leaves the conversion undefined for NaN, the infinities and a value
  outside that range: there the model takes what the conversion instruction of x86-64
  returns, the most negative integer of its width.
\<close>

fun to_bool :: "scalar \<Rightarrow> bool" where
  "to_bool (SBool b) = b"
| "to_bool (SInt i) = (i \<noteq> 0)"
| "to_bool (SFlt x) = (x \<noteq> Fin 0)"

fun float_to_int :: "nat \<Rightarrow> flt \<Rightarrow> int" where
  "float_to_int n (Fin r) =
     (let k = (if 0 \<le> r then \<lfloor>r\<rfloor> else \<lceil>r\<rceil>)
      in if - (2 ^ (n - 1)) \<le> k \<and> k < 2 ^ (n - 1) then k else - (2 ^ (n - 1)))"
| "float_to_int n x = - (2 ^ (n - 1))"

fun to_int :: "nat \<Rightarrow> scalar \<Rightarrow> int" where
  "to_int n (SBool b) = (if b then 1 else 0)"
| "to_int n (SInt i) = i"
| "to_int n (SFlt x) = float_to_int n x"

text \<open>The value of one element after the conversion to an element type.\<close>

fun cast_scalar :: "dtype \<Rightarrow> scalar \<Rightarrow> scalar" where
  "cast_scalar dt_bool x = SBool (to_bool x)"
| "cast_scalar dt_uint8 x = SInt (uint (word_of_int (to_int 64 x) :: 8 word))"
| "cast_scalar dt_uint16 x = SInt (uint (word_of_int (to_int 64 x) :: 16 word))"
| "cast_scalar dt_uint32 x = SInt (uint (word_of_int (to_int 64 x) :: 32 word))"
| "cast_scalar dt_uint64 x = SInt (uint (word_of_int (to_int 64 x) :: 64 word))"
| "cast_scalar dt_int8 x = SInt (sint (word_of_int (to_int 32 x) :: 8 word))"
| "cast_scalar dt_int16 x = SInt (sint (word_of_int (to_int 32 x) :: 16 word))"
| "cast_scalar dt_int32 x = SInt (sint (word_of_int (to_int 32 x) :: 32 word))"
| "cast_scalar dt_int64 x = SInt (sint (word_of_int (to_int 64 x) :: 64 word))"
| "cast_scalar dt_float16 x = SFlt (to_flt x)"
| "cast_scalar dt_float32 x = SFlt (to_flt x)"
| "cast_scalar dt_float64 x = SFlt (to_flt x)"
| "cast_scalar dt_byteswapped x = x"

fun cast_buffer :: "dtype \<Rightarrow> buffer \<Rightarrow> buffer" where
  "cast_buffer dt_bool b = Bools (map to_bool (buf_scalars b))"
| "cast_buffer dt_uint8 b = U8s (map (\<lambda>x. word_of_int (to_int 64 x)) (buf_scalars b))"
| "cast_buffer dt_uint16 b = U16s (map (\<lambda>x. word_of_int (to_int 64 x)) (buf_scalars b))"
| "cast_buffer dt_uint32 b = U32s (map (\<lambda>x. word_of_int (to_int 64 x)) (buf_scalars b))"
| "cast_buffer dt_uint64 b = U64s (map (\<lambda>x. word_of_int (to_int 64 x)) (buf_scalars b))"
| "cast_buffer dt_int8 b = I8s (map (\<lambda>x. word_of_int (to_int 32 x)) (buf_scalars b))"
| "cast_buffer dt_int16 b = I16s (map (\<lambda>x. word_of_int (to_int 32 x)) (buf_scalars b))"
| "cast_buffer dt_int32 b = I32s (map (\<lambda>x. word_of_int (to_int 32 x)) (buf_scalars b))"
| "cast_buffer dt_int64 b = I64s (map (\<lambda>x. word_of_int (to_int 64 x)) (buf_scalars b))"
| "cast_buffer dt_float16 b = F16s (map to_flt (buf_scalars b))"
| "cast_buffer dt_float32 b = F32s (map to_flt (buf_scalars b))"
| "cast_buffer dt_float64 b = F64s (map to_flt (buf_scalars b))"
| "cast_buffer dt_byteswapped b = Byteswapped (buf_scalars b)"



text \<open>\<^verbatim>\<open>array.astype(d)\<close>: a new array, laid out afresh.\<close>

definition astype :: "ndarray \<Rightarrow> dtype \<Rightarrow> ndarray" where
  "astype a d =
     \<lparr>nd_shape = nd_shape a, nd_data = cast_buffer d (nd_data a),
      nd_stride_negative = False, nd_stride_misaligned = False\<rparr>"

text \<open>
  \<^verbatim>\<open>tensor.type(dtype=d, non_blocking=nb)\<close>. The flag only lets a copy between devices
  run asynchronously. A tensor of integers records no gradient.
\<close>

definition tensor_type :: "tensor \<Rightarrow> dtype \<Rightarrow> bool \<Rightarrow> tensor" where
  "tensor_type t d non_blocking =
     t\<lparr>t_data := cast_buffer d (t_data t),
       t_requires_grad := (t_requires_grad t \<and> is_floating d)\<rparr>"

section \<open>AsType\<close>

text \<open>
  \<^verbatim>\<open>getattr(torch, dtype)\<close> reads the namespace of the \<^verbatim>\<open>torch\<close> module, which is
  not part of this repository: it is a parameter, a map from names to what they denote,
  an element type or anything else.
\<close>

datatype py_obj = DtypeObj dtype | OtherObj

definition getattr_torch :: "(string \<rightharpoonup> py_obj) \<Rightarrow> string \<Rightarrow> error + py_obj" where
  "getattr_torch torch_module name =
     (case torch_module name of
        None \<Rightarrow> Inl (AttributeError (''module torch has no attribute '' @ name))
      | Some obj \<Rightarrow> Inr obj)"

text \<open>The stored \<^verbatim>\<open>self.kwargs\<close>.\<close>

record AsType =
  kw_dtype :: dtype
  kw_non_blocking :: bool

definition AsType_init :: "(string \<rightharpoonup> py_obj) \<Rightarrow> string \<Rightarrow> bool \<Rightarrow> error + AsType" where
  "AsType_init torch_module dtype non_blocking =
     (case getattr_torch torch_module dtype of
        Inl e \<Rightarrow> Inl e
      | Inr torch_dtype \<Rightarrow>
          (case torch_dtype of
             OtherObj \<Rightarrow> Inl (TypeError (''torch.'' @ dtype))
           | DtypeObj d \<Rightarrow> Inr \<lparr>kw_dtype = d, kw_non_blocking = non_blocking\<rparr>))"

definition AsType_apply_to_chosen :: "AsType \<Rightarrow> tensor \<Rightarrow> tensor" where
  "AsType_apply_to_chosen self t = tensor_type t (kw_dtype self) (kw_non_blocking self)"

text \<open>
  An excerpt of the namespace of \<^verbatim>\<open>torch\<close>: the names of the modelled element types
  and three names that denote something else.
\<close>

definition torch_names :: "string \<rightharpoonup> py_obj" where
  "torch_names = map_of
     [(''bool'', DtypeObj dt_bool), (''uint8'', DtypeObj dt_uint8),
      (''int8'', DtypeObj dt_int8), (''int16'', DtypeObj dt_int16),
      (''short'', DtypeObj dt_int16), (''int32'', DtypeObj dt_int32),
      (''int'', DtypeObj dt_int32), (''int64'', DtypeObj dt_int64),
      (''long'', DtypeObj dt_int64), (''float16'', DtypeObj dt_float16),
      (''half'', DtypeObj dt_float16), (''float32'', DtypeObj dt_float32),
      (''float'', DtypeObj dt_float32), (''float64'', DtypeObj dt_float64),
      (''double'', DtypeObj dt_float64),
      (''Tensor'', OtherObj), (''mean'', OtherObj), (''from_numpy'', OtherObj)]"

section \<open>EnsureTorch and EnsureNumpy\<close>

text \<open>
  \<^verbatim>\<open>torch.from_numpy\<close> wraps the array's memory on the host. It raises a ValueError
  for an array with a stride that is no multiple of the element size, with a negative
  stride, or in the other byte order, and a TypeError for an element type the library
  has no counterpart of. The source names uint16 as such a type
  (\<^verbatim>\<open># not supported by pytorch\<close>); the releases of the library that lack it lack the
  wider unsigned types with it.
\<close>

fun from_numpy_supported :: "dtype \<Rightarrow> bool" where
  "from_numpy_supported dt_uint16 = False"
| "from_numpy_supported dt_uint32 = False"
| "from_numpy_supported dt_uint64 = False"
| "from_numpy_supported dt_byteswapped = False"
| "from_numpy_supported _ = True"

definition from_numpy :: "ndarray \<Rightarrow> error + tensor" where
  "from_numpy a =
     (if nd_stride_misaligned a
      then Inl (ValueError
             ''given numpy array strides not a multiple of the element byte size'')
      else if nd_stride_negative a
      then Inl (ValueError ''At least one stride in the given numpy array is negative'')
      else if dtype_of (nd_data a) = dt_byteswapped
      then Inl (ValueError
             ''given numpy array has byte order different from the native byte order'')
      else if from_numpy_supported (dtype_of (nd_data a))
      then Inr \<lparr>t_shape = nd_shape a, t_data = nd_data a,
                t_device = CPU, t_requires_grad = False\<rparr>
      else Inl (TypeError ''cannot convert np.ndarray of this element type''))"

definition EnsureTorch_apply_to_chosen :: "tensor_like \<Rightarrow> error + tensor" where
  "EnsureTorch_apply_to_chosen x =
     (case x of
        Ndarray a \<Rightarrow>
          (let a' = (if dtype_of (nd_data a) = dt_uint16 then astype a dt_int32 else a)
           in from_numpy a')
      | Tensor t \<Rightarrow> Inr t)"



definition tensor_numpy :: "tensor \<Rightarrow> error + ndarray" where
  "tensor_numpy t =
     (if t_requires_grad t
      then Inl (RuntimeError ''Cannot call numpy() on a tensor that requires grad'')
      else if t_device t \<noteq> CPU
      then Inl (TypeError ''cannot convert a tensor on another device to numpy'')
      else Inr \<lparr>nd_shape = t_shape t, nd_data = t_data t,
                nd_stride_negative = False, nd_stride_misaligned = False\<rparr>)"


text \<open>One transformation after another: an exception of the first ends the pipeline.\<close>

definition and_then :: "error + 'a \<Rightarrow> ('a \<Rightarrow> error + 'b) \<Rightarrow> error + 'b" where
  "and_then r f = (case r of Inl e \<Rightarrow> Inl e | Inr x \<Rightarrow> f x)"

section \<open>Example values\<close>

text \<open>A floating tensor and an integer tensor of shape \<open>[1, 4, 1]\<close>, a vector of four
  elements, the 4-channel batch of shape \<open>[2, 4, 1, 2]\<close>, and the array of the documented
  scenario: shape \<open>[2, 4, 3, 3]\<close>, unsigned 16-bit, every element 5, laid out row by row.\<close>

definition four_channels :: tensor where
  "four_channels =
     \<lparr>t_shape = [1, 4, 1], t_data = F32s [Fin 1, Fin 2, Fin 3, Fin 4],
      t_device = CPU, t_requires_grad = False\<rparr>"

definition four_int_channels :: tensor where
  "four_int_channels =
     \<lparr>t_shape = [1, 4, 1], t_data = I32s [1, 2, 3, 4],
      t_device = CPU, t_requires_grad = False\<rparr>"

definition four_vector :: tensor where
  "four_vector =
     \<lparr>t_shape = [4], t_data = F32s [Fin 1, Fin 2, Fin 3, Fin 4],
      t_device = CPU, t_requires_grad = False\<rparr>"

definition small_batch :: tensor where
  "small_batch =
     \<lparr>t_shape = [2, 4, 1, 2],
      t_data = F64s (map (\<lambda>i. Fin (of_nat i)) [0..<16]),
      t_device = CPU, t_requires_grad = False\<rparr>"

definition scenario_array :: ndarray where
  "scenario_array =
     \<lparr>nd_shape = [2, 4, 3, 3], nd_data = U16s (replicate 72 5),
      nd_stride_negative = False, nd_stride_misaligned = False\<rparr>"


section \<open>Positions in row-major buffers\<close>

lemma concat_nth_uniform:
  "\<forall>x\<in>set xss. length x = L \<Longrightarrow> i < length xss \<Longrightarrow> j < L
   \<Longrightarrow> concat xss ! (i * L + j) = xss ! i ! j"
proof (induction xss arbitrary: i)
  case Nil
  then show ?case by simp
next
  case (Cons x xss)
  show ?case
  proof (cases i)
    case 0
    with Cons.prems show ?thesis by (simp add: nth_append)
  next
    case (Suc k)
    with Cons.prems have "concat xss ! (k * L + j) = xss ! k ! j"
      by (intro Cons.IH) auto
    with Suc Cons.prems show ?thesis by (simp add: nth_append)
  qed
qed

lemma length_concat_uniform:
  "\<forall>x\<in>set xss. length x = L \<Longrightarrow> length (concat xss) = length xss * L"
  by (induction xss) auto

lemma length_axis1_positions:
  "length (axis1_positions C P chans n) = length chans * P"
  unfolding axis1_positions_def
  by (subst length_concat_uniform [where L = P]) auto

lemma axis1_positions_nth:
  assumes "c < length chans" "p < P"
  shows "axis1_positions C P chans n ! (c * P + p) = (n * C + chans ! c) * P + p"
  unfolding axis1_positions_def
  using assms by (subst concat_nth_uniform [where L = P]) auto

lemma sliced_positions_nth:
  assumes "n < N" "c < length chans" "p < P"
  shows "concat (map (axis1_positions C P chans) [0..<N]) ! ((n * length chans + c) * P + p)
         = (n * C + chans ! c) * P + p"
proof -
  have lt: "c * P + p < length chans * P"
  proof -
    have "c * P + p < c * P + P" using assms by simp
    also have "\<dots> = Suc c * P" by simp
    also have "\<dots> \<le> length chans * P" using assms by (intro mult_le_mono1) simp
    finally show ?thesis .
  qed
  have e: "(n * length chans + c) * P + p = n * (length chans * P) + (c * P + p)"
    by (simp add: algebra_simps)
  have "concat (map (axis1_positions C P chans) [0..<N]) ! (n * (length chans * P) + (c * P + p))
        = map (axis1_positions C P chans) [0..<N] ! n ! (c * P + p)"
    using assms lt
    by (intro concat_nth_uniform) (auto simp: length_axis1_positions)
  with assms show ?thesis by (simp add: e axis1_positions_nth)
qed

lemma sliced_positions_length:
  "length (concat (map (axis1_positions C P chans) [0..<N])) = N * (length chans * P)"
  by (subst length_concat_uniform [where L = "length chans * P"])
     (auto simp: length_axis1_positions)

lemma mean_data_length: "length (mean_data N K P xs) = N * P"
  unfolding mean_data_def
  by (subst length_concat_uniform [where L = P]) auto

lemma mean_data_nth:
  assumes "n < N" "p < P"
  shows "mean_data N K P xs ! (n * P + p)
         = fmean (map (\<lambda>c. xs ! ((n * K + c) * P + p)) [0..<K])"
  unfolding mean_data_def
  using assms by (subst concat_nth_uniform [where L = P]) auto

lemma sliced_index_bound:
  fixes n N c K p P :: nat
  assumes "n < N" "c < K" "p < P"
  shows "(n * K + c) * P + p < N * (K * P)"
proof -
  have "n * K + c < n * K + K" using assms by simp
  also have "\<dots> = Suc n * K" by simp
  also have "\<dots> \<le> N * K" using assms by (intro mult_le_mono1) simp
  finally have a: "Suc (n * K + c) \<le> N * K" by simp
  have "(n * K + c) * P + p < (n * K + c) * P + P" using assms by simp
  also have "\<dots> = Suc (n * K + c) * P" by simp
  also have "\<dots> \<le> (N * K) * P" using a by (intro mult_le_mono1)
  finally show ?thesis by (simp add: mult.assoc)
qed

lemma sliced_mean_nth:
  assumes "n < N" "p < P"
  shows "mean_data N (length chans) P
           (gather (concat (map (axis1_positions C P chans) [0..<N])) xs) ! (n * P + p)
         = fmean (map (\<lambda>c. xs ! ((n * C + c) * P + p)) chans)"
proof -
  let ?idx = "concat (map (axis1_positions C P chans) [0..<N])"
  let ?K = "length chans"
  have "map (\<lambda>c. gather ?idx xs ! ((n * ?K + c) * P + p)) [0..<?K]
        = map (\<lambda>c. xs ! ((n * C + chans ! c) * P + p)) [0..<?K]"
  proof (rule map_cong [OF refl])
    fix c assume "c \<in> set [0..<?K]"
    then have c: "c < ?K" by simp
    have "(n * ?K + c) * P + p < length ?idx"
      using sliced_index_bound [OF assms(1) c assms(2)]
      by (simp add: sliced_positions_length)
    then have "gather ?idx xs ! ((n * ?K + c) * P + p) = xs ! (?idx ! ((n * ?K + c) * P + p))"
      by (simp add: gather_def)
    then show "gather ?idx xs ! ((n * ?K + c) * P + p) = xs ! ((n * C + chans ! c) * P + p)"
      using sliced_positions_nth [OF assms(1) c assms(2)] by simp
  qed
  also have "\<dots> = map (\<lambda>c. xs ! ((n * C + c) * P + p)) (map (\<lambda>i. chans ! i) [0..<?K])"
    by (simp add: comp_def)
  also have "\<dots> = map (\<lambda>c. xs ! ((n * C + c) * P + p)) chans"
    by (simp add: map_nth)
  finally show ?thesis using assms by (simp add: mean_data_nth)
qed

section \<open>Properties of AverageChannels\<close>

lemma getitem_axis1_shape:
  "getitem_axis1 t a b = Inr s \<Longrightarrow> 2 \<le> length (t_shape s)"
  by (auto simp: getitem_axis1_def Let_def split: list.splits)

lemma mean_axis1_keepdim_not_ValueError:
  "mean_axis1_keepdim s \<noteq> Inl (ValueError m)"
  by (auto simp: mean_axis1_keepdim_def split: list.splits buffer.splits)

lemma getitem_axis1_not_ValueError:
  "getitem_axis1 t a b \<noteq> Inl (ValueError m)"
  by (auto simp: getitem_axis1_def Let_def split: list.splits)

lemma buf_values_float [simp]:
  "buf_values (F16s xs) = xs" "buf_values (F32s xs) = xs" "buf_values (F64s xs) = xs"
  by (simp_all add: buf_values_def comp_def)

lemma buf_len_float [simp]:
  "buf_len (F16s xs) = length xs" "buf_len (F32s xs) = length xs" "buf_len (F64s xs) = length xs"
  by (simp_all add: buf_len_def)

lemma AverageChannels_mean:
  assumes sh: "t_shape t = N # C # sp"
    and fl: "is_floating (dtype_of (t_data t))"
    and lt: "effective_start self < effective_stop self C"
    and le: "effective_stop self C \<le> int C"
  shows "\<exists>r. AverageChannels_apply_to_chosen self t = Inr r
           \<and> t_shape r = N # 1 # sp
           \<and> dtype_of (t_data r) = dtype_of (t_data t)
           \<and> t_device r = t_device t
           \<and> buf_len (t_data r) = N * prod_list sp
           \<and> (\<forall>n<N. \<forall>p<prod_list sp.
                 buf_values (t_data r) ! (n * prod_list sp + p)
                 = fmean (map (\<lambda>c. buf_values (t_data t) ! ((n * C + c) * prod_list sp + p))
                            (slice_range C (effective_start self) (effective_stop self C))))"
proof (cases "t_data t")
  case (F16s xs)
  with sh lt le show ?thesis
    by (simp add: AverageChannels_apply_to_chosen_def shape_getitem_def Let_def
          getitem_axis1_def mean_axis1_keepdim_def mean_data_length sliced_mean_nth)
next
  case (F32s xs)
  with sh lt le show ?thesis
    by (simp add: AverageChannels_apply_to_chosen_def shape_getitem_def Let_def
          getitem_axis1_def mean_axis1_keepdim_def mean_data_length sliced_mean_nth)
next
  case (F64s xs)
  with sh lt le show ?thesis
    by (simp add: AverageChannels_apply_to_chosen_def shape_getitem_def Let_def
          getitem_axis1_def mean_axis1_keepdim_def mean_data_length sliced_mean_nth)
qed (use fl in simp_all)

text \<open>
  C10. A tensor with fewer than two axes fails at \<^verbatim>\<open>tensor.shape[1]\<close>, whatever the
  configured range: the result is the IndexError of the shape read, so it is never the
  invalid-range ValueError, which only tensors with at least two axes can reach.
\<close>

theorem AverageChannels_few_axes:
  assumes "length (t_shape t) < 2"
  shows "AverageChannels_apply_to_chosen self t = Inl (IndexError ''tuple index out of range'')"
  using assms by (simp add: AverageChannels_apply_to_chosen_def shape_getitem_def)

theorem AverageChannels_few_axes_witness:
  "length (t_shape four_vector) < 2
   \<and> AverageChannels_apply_to_chosen (AverageChannels_init (Some 2) (Some 2)) four_vector
     = Inl (IndexError ''tuple index out of range'')"
  using AverageChannels_few_axes [of four_vector "AverageChannels_init (Some 2) (Some 2)"]
  by (simp add: four_vector_def)

lemma AverageChannels_unfold:
  assumes "t_shape t = N # C # sp"
  shows "AverageChannels_apply_to_chosen self t
         = (if effective_start self \<ge> effective_stop self C \<or> effective_stop self C > int C
            then Inl (ValueError
                   ''Invalid channel range in pybio.torch.transformation.AverageChannels'')
            else (case getitem_axis1 t (effective_start self) (effective_stop self C) of
                    Inl e \<Rightarrow> Inl e
                  | Inr sliced \<Rightarrow> mean_axis1_keepdim sliced))"
  using assms by (simp add: AverageChannels_apply_to_chosen_def shape_getitem_def Let_def)

lemma AverageChannels_valid_not_ValueError:
  assumes "t_shape t = N # C # sp"
    and "effective_start self < effective_stop self C" "effective_stop self C \<le> int C"
  shows "AverageChannels_apply_to_chosen self t \<noteq> Inl (ValueError m)"
proof (cases "getitem_axis1 t (effective_start self) (effective_stop self C)")
  case (Inl e)
  with getitem_axis1_not_ValueError [of t "effective_start self" "effective_stop self C" m]
  show ?thesis using assms by (simp add: AverageChannels_unfold [OF assms(1)])
next
  case (Inr sliced)
  then show ?thesis
    using assms by (simp add: AverageChannels_unfold [OF assms(1)] mean_axis1_keepdim_not_ValueError)
qed

text \<open>
  C1. On a tensor with at least two axes, \<open>C\<close> of them channels, the call raises the
  ValueError that names AverageChannels exactly when the bounds, a missing start read as
  0 and a missing stop as \<open>C\<close>, violate \<open>start < stop \<le> C\<close>. The constructor stores any
  pair of bounds as given, so the check is made by the call.
\<close>

theorem AverageChannels_invalid_range_iff:
  assumes sh: "t_shape t = N # C # sp"
  shows "start_channel (AverageChannels_init start stop) = start
       \<and> stop_channel (AverageChannels_init start stop) = stop
       \<and> ((AverageChannels_apply_to_chosen (AverageChannels_init start stop) t
            = Inl (ValueError
                ''Invalid channel range in pybio.torch.transformation.AverageChannels''))
          = (\<not> ((case start of None \<Rightarrow> 0 | Some s \<Rightarrow> s)
                  < (case stop of None \<Rightarrow> int C | Some e \<Rightarrow> e)
                \<and> (case stop of None \<Rightarrow> int C | Some e \<Rightarrow> e) \<le> int C)))"
proof -
  let ?self = "AverageChannels_init start stop"
  have es: "effective_start ?self = (case start of None \<Rightarrow> 0 | Some s \<Rightarrow> s)"
    by (simp add: effective_start_def AverageChannels_init_def)
  have ee: "effective_stop ?self C = (case stop of None \<Rightarrow> int C | Some e \<Rightarrow> e)"
    by (simp add: effective_stop_def AverageChannels_init_def)
  have fields: "start_channel ?self = start \<and> stop_channel ?self = stop"
    by (simp add: AverageChannels_init_def)
  show ?thesis
  proof (cases "effective_start ?self < effective_stop ?self C \<and> effective_stop ?self C \<le> int C")
    case True
    then have "AverageChannels_apply_to_chosen ?self t \<noteq> Inl (ValueError m)" for m
      using AverageChannels_valid_not_ValueError [OF sh] by blast
    with True fields show ?thesis unfolding es ee by blast
  next
    case False
    then have "AverageChannels_apply_to_chosen ?self t
               = Inl (ValueError
                   ''Invalid channel range in pybio.torch.transformation.AverageChannels'')"
      by (auto simp: AverageChannels_unfold [OF sh])
    with False fields show ?thesis unfolding es ee by simp
  qed
qed

theorem AverageChannels_invalid_range_iff_witness:
  "t_shape four_channels = 1 # 4 # [1]
   \<and> AverageChannels_apply_to_chosen (AverageChannels_init (Some 2) (Some 2)) four_channels
     = Inl (ValueError ''Invalid channel range in pybio.torch.transformation.AverageChannels'')
   \<and> AverageChannels_apply_to_chosen (AverageChannels_init (Some 0) (Some 5)) four_channels
     = Inl (ValueError ''Invalid channel range in pybio.torch.transformation.AverageChannels'')
   \<and> AverageChannels_apply_to_chosen (AverageChannels_init (Some 1) (Some 3)) four_channels
     \<noteq> Inl (ValueError ''Invalid channel range in pybio.torch.transformation.AverageChannels'')"
proof -
  have sh: "t_shape four_channels = 1 # 4 # [1]"
    by (simp add: four_channels_def)
  show ?thesis
    using sh AverageChannels_invalid_range_iff [OF sh, of "Some 2" "Some 2"]
      AverageChannels_invalid_range_iff [OF sh, of "Some 0" "Some 5"]
      AverageChannels_invalid_range_iff [OF sh, of "Some 1" "Some 3"]
    by simp
qed

lemma slice_range_nonneg:
  assumes "0 \<le> a" "a < b" "b \<le> int C"
  shows "slice_range C a b = [nat a ..< nat b]"
proof -
  from assms have "slice_bound C a = nat a" "slice_bound C b = nat b"
    by (auto simp: slice_bound_def min_def)
  then show ?thesis by (simp add: slice_range_def)
qed

lemma channel_position_bound:
  fixes n N c C p P :: nat
  assumes "n < N" "c < C" "p < P"
  shows "(n * C + c) * P + p < N * C * P"
  using sliced_index_bound [OF assms] by (simp add: mult.assoc)

text \<open>
  C2, amended. For a floating tensor of shape \<open>[N, C, ...]\<close> and bounds with
  \<open>0 \<le> start < stop \<le> C\<close>, the call returns a tensor of shape \<open>[N, 1, ...]\<close>, the
  other axes and the element type unchanged, whose element at batch entry \<open>n\<close> and
  position \<open>p\<close> is the mean of the input's elements there over the channels
  \<open>start, ..., stop - 1\<close>.
\<close>

theorem AverageChannels_mean_of_range:
  assumes wf: "wf_tensor t"
    and sh: "t_shape t = N # C # sp"
    and fl: "is_floating (dtype_of (t_data t))"
    and nn: "0 \<le> effective_start self"
    and lt: "effective_start self < effective_stop self C"
    and le: "effective_stop self C \<le> int C"
  shows "\<exists>r. AverageChannels_apply_to_chosen self t = Inr r
           \<and> wf_tensor r
           \<and> t_shape r = N # 1 # sp
           \<and> dtype_of (t_data r) = dtype_of (t_data t)
           \<and> (\<forall>n<N. \<forall>p<prod_list sp.
                 (\<forall>c\<in>set [nat (effective_start self) ..< nat (effective_stop self C)].
                     (n * C + c) * prod_list sp + p < buf_len (t_data t))
                 \<and> buf_values (t_data r) ! (n * prod_list sp + p)
                   = fmean (map (\<lambda>c. buf_values (t_data t) ! ((n * C + c) * prod_list sp + p))
                              [nat (effective_start self) ..< nat (effective_stop self C)]))"
proof -
  from AverageChannels_mean [OF sh fl lt le] obtain r where
    r: "AverageChannels_apply_to_chosen self t = Inr r" "t_shape r = N # 1 # sp"
       "dtype_of (t_data r) = dtype_of (t_data t)" "buf_len (t_data r) = N * prod_list sp"
       "\<forall>n<N. \<forall>p<prod_list sp.
          buf_values (t_data r) ! (n * prod_list sp + p)
          = fmean (map (\<lambda>c. buf_values (t_data t) ! ((n * C + c) * prod_list sp + p))
                     (slice_range C (effective_start self) (effective_stop self C)))"
    by blast
  have rng: "slice_range C (effective_start self) (effective_stop self C)
             = [nat (effective_start self) ..< nat (effective_stop self C)]"
    using nn lt le by (rule slice_range_nonneg)
  have len: "buf_len (t_data t) = N * C * prod_list sp"
    using wf sh by (simp add: wf_tensor_def)
  have inb: "(n * C + c) * prod_list sp + p < buf_len (t_data t)"
    if "n < N" "p < prod_list sp"
       "c \<in> set [nat (effective_start self) ..< nat (effective_stop self C)]" for n p c
  proof -
    from that(3) le have "c < C" by auto
    with that show ?thesis by (simp add: len channel_position_bound)
  qed
  have "wf_tensor r" using r by (simp add: wf_tensor_def)
  with r rng inb show ?thesis by auto
qed

theorem AverageChannels_mean_of_range_witness:
  "wf_tensor small_batch
   \<and> t_shape small_batch = 2 # 4 # [1, 2]
   \<and> is_floating (dtype_of (t_data small_batch))
   \<and> (\<exists>r. AverageChannels_apply_to_chosen (AverageChannels_init (Some 1) (Some 3)) small_batch
              = Inr r
          \<and> t_shape r = [2, 1, 1, 2]
          \<and> buf_values (t_data r) ! 2
            = fmean [buf_values (t_data small_batch) ! 10, buf_values (t_data small_batch) ! 12])"
proof -
  let ?self = "AverageChannels_init (Some 1) (Some 3)"
  have wf: "wf_tensor small_batch"
    by (simp add: wf_tensor_def small_batch_def)
  have sh: "t_shape small_batch = 2 # 4 # [1, 2]"
    by (simp add: small_batch_def)
  have fl: "is_floating (dtype_of (t_data small_batch))"
    by (simp add: small_batch_def)
  have es: "effective_start ?self = 1" and ee: "effective_stop ?self 4 = 3"
    by (simp_all add: effective_start_def effective_stop_def AverageChannels_init_def)
  have rng: "[nat 1 ..< nat 3] = [1, 2]"
    by (simp add: upt_rec)
  from AverageChannels_mean_of_range [OF wf sh fl, of ?self] es ee
  obtain r where r: "AverageChannels_apply_to_chosen ?self small_batch = Inr r"
      "t_shape r = 2 # 1 # [1, 2]"
      "\<forall>n<2. \<forall>p<prod_list [1, 2].
          buf_values (t_data r) ! (n * prod_list [1, 2] + p)
          = fmean (map (\<lambda>c. buf_values (t_data small_batch) ! ((n * 4 + c) * prod_list [1, 2] + p))
                     [nat 1 ..< nat 3])"
    by auto
  from r(3) [rule_format, of 1 0] have "buf_values (t_data r) ! 2
        = fmean [buf_values (t_data small_batch) ! 10, buf_values (t_data small_batch) ! 12]"
    unfolding rng by simp
  with wf sh fl r show ?thesis by auto
qed

text \<open>
  The documented instance: bounds 1 and 3 on shape \<open>[N, 4, H, W]\<close> give shape
  \<open>[N, 1, H, W]\<close> and the mean of channels 1 and 2, which for two finite values is half
  their sum.
\<close>

lemma fmean_two: "fmean [Fin a, Fin b] = Fin ((a + b) / 2)"
  by (simp add: fmean_def)

lemma AverageChannels_channels_1_2:
  assumes sh: "t_shape t = [N, 4, H, W]"
    and fl: "is_floating (dtype_of (t_data t))"
  shows "\<exists>r. AverageChannels_apply_to_chosen (AverageChannels_init (Some 1) (Some 3)) t = Inr r
           \<and> t_shape r = [N, 1, H, W]
           \<and> (\<forall>n<N. \<forall>p<H * W.
                 buf_values (t_data r) ! (n * (H * W) + p)
                 = fmean [buf_values (t_data t) ! ((n * 4 + 1) * (H * W) + p),
                          buf_values (t_data t) ! ((n * 4 + 2) * (H * W) + p)])"
proof -
  let ?self = "AverageChannels_init (Some 1) (Some 3)"
  have es: "effective_start ?self = 1" and ee: "effective_stop ?self 4 = 3"
    by (simp_all add: effective_start_def effective_stop_def AverageChannels_init_def)
  have rng: "slice_range 4 1 3 = [1, 2]"
    by (simp add: slice_range_def slice_bound_def upt_rec)
  from AverageChannels_mean [of t N 4 "[H, W]" ?self] sh fl show ?thesis
    unfolding es ee rng by auto
qed

text \<open>
  The claim as first stated, for every tensor and every range with \<open>start < stop \<le> C\<close>,
  fails twice: an integer tensor passes the range check and is refused by the mean, and
  a negative start is read from the end of the axis, here selecting no channel at all,
  so that the result is NaN and not a mean of input channels.
\<close>

theorem AverageChannels_mean_of_range_counterexample:
  "AverageChannels_apply_to_chosen (AverageChannels_init (Some 1) (Some 3)) four_int_channels
   = Inl (RuntimeError ''Can only calculate the mean of floating types'')
   \<and> AverageChannels_apply_to_chosen (AverageChannels_init (Some (-1)) (Some 2)) four_channels
     = Inr \<lparr>t_shape = [1, 1, 1], t_data = F32s [NaN], t_device = CPU, t_requires_grad = False\<rparr>"
  by code_simp

lemma slice_bound_negative: "i < 0 \<Longrightarrow> slice_bound n i = nat (max 0 (int n + i))"
  by (simp add: slice_bound_def)

text \<open>
  C9, amended. A negative start below the stop passes the range check, so the call does
  not raise the invalid-range error. The slice then reads the start from the end of the
  axis and clamps it at 0: the channels averaged begin at \<open>max 0 (C + start)\<close>, which is
  \<open>C + start\<close> only while \<open>- C \<le> start\<close>, and there may be none of them.
\<close>

theorem AverageChannels_negative_start:
  assumes sh: "t_shape t = N # C # sp"
    and st: "start_channel self = Some s"
    and neg: "s < 0"
    and lt: "s < effective_stop self C"
    and le: "effective_stop self C \<le> int C"
  shows "(\<forall>m. AverageChannels_apply_to_chosen self t \<noteq> Inl (ValueError m))
       \<and> slice_range C s (effective_stop self C)
         = [nat (max 0 (int C + s)) ..< slice_bound C (effective_stop self C)]
       \<and> (is_floating (dtype_of (t_data t)) \<longrightarrow>
            (\<exists>r. AverageChannels_apply_to_chosen self t = Inr r
               \<and> t_shape r = N # 1 # sp
               \<and> (\<forall>n<N. \<forall>p<prod_list sp.
                     buf_values (t_data r) ! (n * prod_list sp + p)
                     = fmean (map (\<lambda>c. buf_values (t_data t) ! ((n * C + c) * prod_list sp + p))
                                [nat (max 0 (int C + s)) ..<
                                 slice_bound C (effective_stop self C)]))))"
proof -
  have es: "effective_start self = s"
    using st by (simp add: effective_start_def)
  have lt': "effective_start self < effective_stop self C"
    using lt es by simp
  have a: "AverageChannels_apply_to_chosen self t \<noteq> Inl (ValueError m)" for m
    using sh lt' le by (rule AverageChannels_valid_not_ValueError)
  have b: "slice_range C s (effective_stop self C)
           = [nat (max 0 (int C + s)) ..< slice_bound C (effective_stop self C)]"
    using neg by (simp add: slice_range_def slice_bound_negative)
  have c: "\<exists>r. AverageChannels_apply_to_chosen self t = Inr r
               \<and> t_shape r = N # 1 # sp
               \<and> (\<forall>n<N. \<forall>p<prod_list sp.
                     buf_values (t_data r) ! (n * prod_list sp + p)
                     = fmean (map (\<lambda>c. buf_values (t_data t) ! ((n * C + c) * prod_list sp + p))
                                [nat (max 0 (int C + s)) ..<
                                 slice_bound C (effective_stop self C)]))"
    if fl: "is_floating (dtype_of (t_data t))"
    using AverageChannels_mean [OF sh fl lt' le] unfolding es b by blast
  from a b c show ?thesis by blast
qed

theorem AverageChannels_negative_start_witness:
  "t_shape four_channels = 1 # 4 # [1]
   \<and> start_channel (AverageChannels_init (Some (- 1)) (Some 2)) = Some (- 1)
   \<and> (- 1 :: int) < 0
   \<and> (\<forall>m. AverageChannels_apply_to_chosen (AverageChannels_init (Some (- 1)) (Some 2))
             four_channels \<noteq> Inl (ValueError m))
   \<and> slice_range 4 (- 1) 2 = []
   \<and> is_floating (dtype_of (t_data four_channels))
   \<and> (\<exists>r. AverageChannels_apply_to_chosen (AverageChannels_init (Some (- 1)) (Some 2))
             four_channels = Inr r
          \<and> t_shape r = [1, 1, 1])"
proof -
  let ?self = "AverageChannels_init (Some (- 1)) (Some 2)"
  have sh: "t_shape four_channels = 1 # 4 # [1]"
    by (simp add: four_channels_def)
  have st: "start_channel ?self = Some (- 1)"
    by (simp add: AverageChannels_init_def)
  have ee: "effective_stop ?self 4 = 2"
    by (simp add: effective_stop_def AverageChannels_init_def)
  have sb: "slice_bound 4 2 = 2"
    by (simp add: slice_bound_def)
  have fl: "is_floating (dtype_of (t_data four_channels))"
    by (simp add: four_channels_def)
  from AverageChannels_negative_start [OF sh st, unfolded ee sb] fl
  have "(\<forall>m. AverageChannels_apply_to_chosen ?self four_channels \<noteq> Inl (ValueError m))
        \<and> slice_range 4 (- 1) 2 = [nat (max 0 (int 4 + - 1)) ..< 2]
        \<and> (\<exists>r. AverageChannels_apply_to_chosen ?self four_channels = Inr r
               \<and> t_shape r = [1, 1, 1])"
    by auto
  with sh st fl show ?thesis by simp
qed

text \<open>
  With four channels, start \<open>- 6\<close> and stop 2, the channels averaged are 0 and 1: they do
  not begin at \<open>4 + (- 6)\<close>.
\<close>

theorem AverageChannels_negative_start_counterexample:
  "slice_range 4 (- 6) 2 = [0, 1]
   \<and> int (hd (slice_range 4 (- 6) 2)) \<noteq> int 4 + (- 6)
   \<and> AverageChannels_apply_to_chosen (AverageChannels_init (Some (- 6)) (Some 2)) four_channels
     = Inr \<lparr>t_shape = [1, 1, 1], t_data = F32s [Fin (3 / 2)],
            t_device = CPU, t_requires_grad = False\<rparr>"
  by code_simp

text \<open>The empty selection: start \<open>- 1\<close> and stop 2 on four channels give the mean of nothing.\<close>

lemma AverageChannels_empty_selection:
  "AverageChannels_apply_to_chosen (AverageChannels_init (Some (- 1)) (Some 2)) four_channels
   = Inr \<lparr>t_shape = [1, 1, 1], t_data = F32s [NaN], t_device = CPU, t_requires_grad = False\<rparr>"
  by code_simp

section \<open>Properties of EnsureTorch and EnsureNumpy\<close>










text \<open>
  Without \<^verbatim>\<open>detach()\<close> and \<^verbatim>\<open>cpu()\<close> the conversion of a tensor that records a
  gradient, or lives on another device, would fail.
\<close>

lemma tensor_numpy_alone:
  "tensor_numpy (t\<lparr>t_requires_grad := True\<rparr>)
   = Inl (RuntimeError ''Cannot call numpy() on a tensor that requires grad'')"
  "tensor_numpy (t\<lparr>t_requires_grad := False, t_device := CUDA k\<rparr>)
   = Inl (TypeError ''cannot convert a tensor on another device to numpy'')"
  by (simp_all add: tensor_numpy_def)




text \<open>
  C8. EnsureTorch returns a native tensor as it is, and applying it to the result of a
  first application changes nothing: twice is the same as once, for every input.
\<close>

theorem EnsureTorch_identity_idempotent:
  "EnsureTorch_apply_to_chosen (Tensor t) = Inr t
   \<and> and_then (EnsureTorch_apply_to_chosen x) (\<lambda>r. EnsureTorch_apply_to_chosen (Tensor r))
     = EnsureTorch_apply_to_chosen x"
  by (simp add: and_then_def EnsureTorch_apply_to_chosen_def split: sum.splits)

lemma EnsureTorch_twice_example:
  "and_then (EnsureTorch_apply_to_chosen (Ndarray scenario_array))
     (\<lambda>r. EnsureTorch_apply_to_chosen (Tensor r))
   = Inr \<lparr>t_shape = [2, 4, 3, 3], t_data = I32s (replicate 72 5),
          t_device = CPU, t_requires_grad = False\<rparr>"
  by code_simp

section \<open>The documented scenario\<close>

text \<open>
  The array of shape \<open>[2, 4, 3, 3]\<close> with unsigned 16-bit elements, all 5, through
  EnsureTorch and then AverageChannels with bounds 0 and 4: the tensor that EnsureTorch
  returns holds 32-bit integers, and the mean of an integer tensor is refused.
\<close>

theorem scenario_counterexample:
  "and_then (EnsureTorch_apply_to_chosen (Ndarray scenario_array))
     (AverageChannels_apply_to_chosen (AverageChannels_init (Some 0) (Some 4)))
   = Inl (RuntimeError ''Can only calculate the mean of floating types'')"
  by code_simp

text \<open>
  C3, amended. EnsureTorch succeeds on the array and yields a signed 32-bit tensor of
  shape \<open>[2, 4, 3, 3]\<close> with every element 5. AverageChannels with bounds 0 and 4 on
  that tensor raises the error of the mean; on the tensor cast to \<^verbatim>\<open>float32\<close> by
  AsType it yields shape \<open>[2, 1, 3, 3]\<close> with every element 5.
\<close>

theorem scenario_with_cast:
  "EnsureTorch_apply_to_chosen (Ndarray scenario_array)
   = Inr \<lparr>t_shape = [2, 4, 3, 3], t_data = I32s (replicate 72 5),
          t_device = CPU, t_requires_grad = False\<rparr>
   \<and> AverageChannels_apply_to_chosen (AverageChannels_init (Some 0) (Some 4))
       \<lparr>t_shape = [2, 4, 3, 3], t_data = I32s (replicate 72 5),
        t_device = CPU, t_requires_grad = False\<rparr>
     = Inl (RuntimeError ''Can only calculate the mean of floating types'')
   \<and> and_then (and_then (EnsureTorch_apply_to_chosen (Ndarray scenario_array))
                (\<lambda>t. and_then (AsType_init torch_names ''float32'' False)
                        (\<lambda>self. Inr (AsType_apply_to_chosen self t))))
       (AverageChannels_apply_to_chosen (AverageChannels_init (Some 0) (Some 4)))
     = Inr \<lparr>t_shape = [2, 1, 3, 3], t_data = F32s (replicate 18 (Fin 5)),
            t_device = CPU, t_requires_grad = False\<rparr>"
  by code_simp

section \<open>Properties of AsType\<close>

lemma torch_names_float33: "torch_names ''float33'' = None"
  by (simp add: torch_names_def)

lemma torch_names_Tensor: "torch_names ''Tensor'' = Some OtherObj"
  by (simp add: torch_names_def)


text \<open>
  A name that does not denote an element type makes the constructor fail, in one of two
  ways: a name that denotes something else reaches the constructor's own check, a name
  the library does not have fails in the lookup before it.
\<close>

lemma AsType_init_fails:
  assumes "\<forall>d. torch_module name \<noteq> Some (DtypeObj d)"
  shows "(torch_module name = Some OtherObj \<longrightarrow>
            AsType_init torch_module name non_blocking = Inl (TypeError (''torch.'' @ name)))
       \<and> (torch_module name = None \<longrightarrow>
            AsType_init torch_module name non_blocking
            = Inl (AttributeError (''module torch has no attribute '' @ name)))"
proof (cases "torch_module name")
  case None
  then show ?thesis by (simp add: AsType_init_def getattr_torch_def)
next
  case (Some obj)
  with assms have "obj = OtherObj" by (cases obj) auto
  with Some show ?thesis by (simp add: AsType_init_def getattr_torch_def)
qed

text \<open>
  C6. Every name that is no element type of the library should fail in the constructor
  with the one error for an invalid dtype name. The constructor raises that error, the
  TypeError naming \<^verbatim>\<open>torch.<name>\<close>, for a name that denotes something else, such as
  \<^verbatim>\<open>Tensor\<close>. For a name the library does not have, such as \<^verbatim>\<open>float33\<close>, the
  lookup \<^verbatim>\<open>getattr(torch, dtype)\<close> raises AttributeError before the check is
  reached, so the constructor fails with another error than its own.
\<close>

theorem AsType_init_missing_name:
  "AsType_init torch_names ''Tensor'' False = Inl (TypeError ''torch.Tensor'')
   \<and> AsType_init torch_names ''float33'' False
     = Inl (AttributeError ''module torch has no attribute float33'')
   \<and> AsType_init torch_names ''float33'' False \<noteq> Inl (TypeError ''torch.float33'')"
  by (simp add: AsType_init_def getattr_torch_def torch_names_Tensor torch_names_float33)










text \<open>The integers 1 to 4 cast to \<^verbatim>\<open>float32\<close>, and an overflowing cast to 8 bits.\<close>

lemma AsType_example:
  "and_then (AsType_init torch_names ''float32'' True)
     (\<lambda>self. Inr (AsType_apply_to_chosen self four_int_channels))
   = Inr \<lparr>t_shape = [1, 4, 1], t_data = F32s [Fin 1, Fin 2, Fin 3, Fin 4],
          t_device = CPU, t_requires_grad = False\<rparr>"
  by code_simp

lemma cast_scalar_examples:
  "cast_scalar dt_uint8 (SInt 300) = SInt 44"
  "cast_scalar dt_int8 (SInt 200) = SInt (- 56)"
  "cast_scalar dt_int32 (SFlt (Fin (- 7 / 2))) = SInt (- 3)"
  "cast_scalar dt_int32 (SFlt NaN) = SInt (- 2147483648)"
  "cast_scalar dt_int32 (SFlt (Fin 3000000000)) = SInt (- 2147483648)"
  "cast_scalar dt_int64 (SFlt PosInf) = SInt (- 9223372036854775808)"
  by code_simp+

end
